theory Spec2Isabelle
  imports Main "HOL-Library.Sublist"
begin

section \<open>JavaScript values\<close>

text \<open>
  The arguments of the handle's methods are JavaScript values. Strings are sequences of
  ASCII characters. Numbers are the integers up to \<open>2\<^sup>5\<^sup>3\<close> in magnitude (the range in which
  every integer is a JavaScript number and prints as its decimal numeral) and the three
  non-finite values; fractions and larger numbers are left out. An object is the
  list of its enumerable properties in the order \<^verbatim>\<open>for (k in obj)\<close> visits them (keys
  distinct); an array is the list of its entries. Functions are left out.
\<close>

datatype jsnum = Finite int | NaN | PosInf | NegInf

datatype jsval =
    Undefined
  | Null
  | Bool bool
  | Num jsnum
  | Str string
  | Arr "jsval list"
  | Obj "(string \<times> jsval) list"

text \<open>The \<^verbatim>\<open>typeof\<close> operator.\<close>

fun typeof :: "jsval \<Rightarrow> string" where
  "typeof Undefined = ''undefined''"
| "typeof Null = ''object''"
| "typeof (Bool b) = ''boolean''"
| "typeof (Num n) = ''number''"
| "typeof (Str s) = ''string''"
| "typeof (Arr vs) = ''object''"
| "typeof (Obj ps) = ''object''"

text \<open>\<^verbatim>\<open>v instanceof Array\<close>.\<close>

fun instanceof_Array :: "jsval \<Rightarrow> bool" where
  "instanceof_Array (Arr vs) = True"
| "instanceof_Array v = False"

text \<open>The decimal numeral of a natural number, as JavaScript prints an array index.\<close>

fun nat_to_string :: "nat \<Rightarrow> string" where
  "nat_to_string n =
     (if n < 10 then [''0123456789'' ! n]
      else nat_to_string (n div 10) @ [''0123456789'' ! (n mod 10)])"

declare nat_to_string.simps [simp del]

text \<open>
  The conversion of a number to a string: an integer up to \<open>2\<^sup>5\<^sup>3\<close> in magnitude prints as
  its decimal numeral. (Beyond that range JavaScript rounds to seventeen digits and, from
  \<open>10\<^sup>2\<^sup>1\<close> on, prints an exponent; \<open>in_decimal_range\<close> below says which values the
  conversion is exact for.)
\<close>

fun num_to_string :: "jsnum \<Rightarrow> string" where
  "num_to_string (Finite i) =
     (if i < 0 then ''-'' @ nat_to_string (nat (- i)) else nat_to_string (nat i))"
| "num_to_string NaN = ''NaN''"
| "num_to_string PosInf = ''Infinity''"
| "num_to_string NegInf = ''-Infinity''"

text \<open>
  The values whose conversion to a string involves no number beyond \<open>2\<^sup>5\<^sup>3\<close>.
\<close>

fun in_decimal_range :: "jsval \<Rightarrow> bool"
  and all_in_decimal_range :: "jsval list \<Rightarrow> bool" where
  "in_decimal_range (Num (Finite i)) = (- 9007199254740992 \<le> i \<and> i \<le> 9007199254740992)"
| "in_decimal_range (Arr vs) = all_in_decimal_range vs"
| "in_decimal_range v = True"
| "all_in_decimal_range [] = True"
| "all_in_decimal_range (v # vs) = (in_decimal_range v \<and> all_in_decimal_range vs)"

text \<open>
  The implicit conversion of a value to a string that \<^verbatim>\<open>"..." + v\<close> performs. An array
  joins its entries with commas, \<^verbatim>\<open>null\<close> and \<^verbatim>\<open>undefined\<close> entries printing as
  nothing; a plain object prints as \<^verbatim>\<open>[object Object]\<close>.
\<close>

fun js_to_string :: "jsval \<Rightarrow> string"
  and js_join :: "jsval list \<Rightarrow> string" where
  "js_to_string Undefined = ''undefined''"
| "js_to_string Null = ''null''"
| "js_to_string (Bool b) = (if b then ''true'' else ''false'')"
| "js_to_string (Num n) = num_to_string n"
| "js_to_string (Str s) = s"
| "js_to_string (Arr vs) = js_join vs"
| "js_to_string (Obj ps) = ''[object Object]''"
| "js_join [] = []"
| "js_join (v # vs) =
     (if v = Undefined \<or> v = Null then [] else js_to_string v)
     @ (if vs = [] then [] else '','' @ js_join vs)"

text \<open>
  The properties \<^verbatim>\<open>for (k in v)\<close> enumerates, each with the value \<^verbatim>\<open>v[k]\<close>: the
  properties of an object, the indices of an array or of a string, nothing for
  \<^verbatim>\<open>null\<close>, \<^verbatim>\<open>undefined\<close>, a boolean or a number.
\<close>

fun for_in :: "jsval \<Rightarrow> (string \<times> jsval) list" where
  "for_in (Obj ps) = ps"
| "for_in (Arr vs) = zip (map nat_to_string [0..<length vs]) vs"
| "for_in (Str s) = zip (map nat_to_string [0..<length s]) (map (\<lambda>c. Str [c]) s)"
| "for_in v = []"

section \<open>The host's style sheet\<close>

text \<open>
  A rule of the sheet's rule list: its selector text and the text of its declaration
  block. The host parses the rule text \<^verbatim>\<open>selector {declarations}\<close> it is given; the
  model keeps the two parts as they were passed (no parsing, no normalisation).
\<close>

record rule =
  selectorText :: string
  declarations :: string

text \<open>
  What a call can throw: \<^verbatim>\<open>new Error(message)\<close>, thrown by \<^verbatim>\<open>addCSS\<close>; the
  \<^verbatim>\<open>TypeError\<close> of reading a property of \<^verbatim>\<open>undefined\<close> or calling a method the sheet
  does not have; the \<^verbatim>\<open>IndexSizeError\<close> of the host's rule-list primitives.
\<close>

datatype error =
    Error string
  | TypeError
  | IndexSizeError

text \<open>
  The index a rule-list primitive of the host reads from a number, for a rule list of
  length \<open>n\<close>. The host converts the argument to an unsigned 32-bit integer: \<^verbatim>\<open>NaN\<close> and
  the infinities become 0, and an integer is reduced modulo \<open>2\<^sup>3\<^sup>2\<close> (4294967296 becomes 0,
  -1 becomes 4294967295). The rule list of a host holds fewer than \<open>2\<^sup>3\<^sup>2\<close> rules, so the
  reduction leaves an integer from 0 to the length of the list as it is; the lists of the
  model have no such bound, and the first case says the same for a list of any length.
\<close>

fun to_index :: "nat \<Rightarrow> jsnum \<Rightarrow> int" where
  "to_index n (Finite i) = (if 0 \<le> i \<and> i \<le> int n then i else i mod 4294967296)"
| "to_index n v = 0"

text \<open>
  \<^verbatim>\<open>sheet.insertRule(text, index)\<close> of the host: the rule is inserted before the
  position the host reads from \<open>index\<close>, which may be the length of the list; a position
  beyond the length raises \<^verbatim>\<open>IndexSizeError\<close> and leaves the list as it is.
\<close>

definition sheet_insertRule :: "rule \<Rightarrow> jsnum \<Rightarrow> rule list \<Rightarrow> error + rule list" where
  "sheet_insertRule r index rs =
     (let i = to_index (length rs) index in
      if 0 \<le> i \<and> i \<le> int (length rs)
      then Inr (take (nat i) rs @ r # drop (nat i) rs)
      else Inl IndexSizeError)"

text \<open>The older spelling \<^verbatim>\<open>sheet.addRule(selector, declarations, index)\<close>.\<close>

definition sheet_addRule :: "rule \<Rightarrow> jsnum \<Rightarrow> rule list \<Rightarrow> error + rule list" where
  "sheet_addRule r index rs = sheet_insertRule r index rs"

text \<open>
  \<^verbatim>\<open>sheet.deleteRule(index)\<close> of the host: the rule at the position the host reads from
  \<open>index\<close> is removed; when that is not a position of the list, the host raises
  \<^verbatim>\<open>IndexSizeError\<close> and leaves the list as it is.
\<close>

definition sheet_deleteRule :: "jsnum \<Rightarrow> rule list \<Rightarrow> error + rule list" where
  "sheet_deleteRule index rs =
     (let i = to_index (length rs) index in
      if 0 \<le> i \<and> i < int (length rs)
      then Inr (take (nat i) rs @ drop (Suc (nat i)) rs)
      else Inl IndexSizeError)"

text \<open>The older spelling \<^verbatim>\<open>sheet.removeRule(index)\<close>.\<close>

definition sheet_removeRule :: "jsnum \<Rightarrow> rule list \<Rightarrow> error + rule list" where
  "sheet_removeRule index rs = sheet_deleteRule index rs"

text \<open>
  \<^verbatim>\<open>rules[index]\<close> on the rule list: the rule at an integer position of the list,
  \<^verbatim>\<open>undefined\<close> (here \<open>None\<close>) for anything else.
\<close>

fun rule_at :: "rule list \<Rightarrow> jsnum \<Rightarrow> rule option" where
  "rule_at rs (Finite i) = (if 0 \<le> i \<and> i < int (length rs) then Some (rs ! nat i) else None)"
| "rule_at rs n = None"

section \<open>The handle\<close>

text \<open>
  The state of an \<^verbatim>\<open>Elan\<close> object: the live rule list of \<^verbatim>\<open>this.sheet\<close>, which of the
  primitives the sheet has, and the text nodes appended to \<^verbatim>\<open>this.HTMLStyleElement\<close>
  after construction.
\<close>

record elan =
  cssRules :: "rule list"
  has_insertRule :: bool
  has_addRule :: bool
  has_removeRule :: bool
  has_deleteRule :: bool
  textNodes :: "string list"

text \<open>
  A method either returns \<^verbatim>\<open>this\<close> (\<open>Returned\<close>, with the state it leaves) or throws
  (\<open>Threw\<close>, with the error and the state at the throw).
\<close>

datatype outcome = Returned elan | Threw error elan

text \<open>A sheet with all four primitives, holding the given rules.\<close>

definition sheet_with :: "rule list \<Rightarrow> elan" where
  "sheet_with rs =
     \<lparr>cssRules = rs, has_insertRule = True, has_addRule = True,
      has_removeRule = True, has_deleteRule = True, textNodes = []\<rparr>"

text \<open>The rule with the given selector and declaration text.\<close>

definition mk_rule :: "string \<Rightarrow> string \<Rightarrow> rule" where
  "mk_rule selector rules = \<lparr>selectorText = selector, declarations = rules\<rparr>"

subsection \<open>addRule\<close>

text \<open>
  The test \<^verbatim>\<open>typeof index === "number" && !isNaN(index)\<close> of \<^verbatim>\<open>addRule\<close> and
  \<^verbatim>\<open>removeCSS\<close>: the number when it holds, \<open>None\<close> when it fails.
\<close>

fun explicit_index :: "jsval \<Rightarrow> jsnum option" where
  "explicit_index (Num n) = (if n = NaN then None else Some n)"
| "explicit_index v = None"

definition addRule :: "string \<Rightarrow> string \<Rightarrow> jsval \<Rightarrow> elan \<Rightarrow> outcome" where
  "addRule selector rules index s =
     (let index' = (case explicit_index index of
                      Some n \<Rightarrow> n
                    | None \<Rightarrow> Finite (int (length (cssRules s)))) in
      if has_insertRule s then
        (case sheet_insertRule (mk_rule selector rules) index' (cssRules s) of
           Inl e \<Rightarrow> Threw e s
         | Inr rs \<Rightarrow> Returned (s\<lparr>cssRules := rs\<rparr>))
      else if has_addRule s then
        (case sheet_addRule (mk_rule selector rules) index' (cssRules s) of
           Inl e \<Rightarrow> Threw e s
         | Inr rs \<Rightarrow> Returned (s\<lparr>cssRules := rs\<rparr>))
      else Returned (s\<lparr>textNodes := textNodes s @ [selector @ ''{'' @ rules @ ''}'']\<rparr>))"

subsection \<open>removeRule\<close>

text \<open>
  The second test of the source is the string constant \<^verbatim>\<open>"deleteRule"\<close>, which is
  true: \<^verbatim>\<open>deleteRule\<close> is called whenever the sheet has no \<^verbatim>\<open>removeRule\<close>, and calling
  it on a sheet that has none raises \<^verbatim>\<open>TypeError\<close>.
\<close>

definition removeRule :: "jsnum \<Rightarrow> elan \<Rightarrow> outcome" where
  "removeRule index s =
     (if has_removeRule s then
        (case sheet_removeRule index (cssRules s) of
           Inl e \<Rightarrow> Threw e s
         | Inr rs \<Rightarrow> Returned (s\<lparr>cssRules := rs\<rparr>))
      else if has_deleteRule s then
        (case sheet_deleteRule index (cssRules s) of
           Inl e \<Rightarrow> Threw e s
         | Inr rs \<Rightarrow> Returned (s\<lparr>cssRules := rs\<rparr>))
      else Threw TypeError s)"

subsection \<open>clearRules\<close>

text \<open>
  \<^verbatim>\<open>for (var i = cssRules.length - 1; i >= 0; i--) this.removeRule(i)\<close>:
  \<open>clearRules_loop n\<close> is the loop with \<open>n\<close> iterations to go, the next one at
  \<open>i = n - 1\<close>.
\<close>

fun clearRules_loop :: "nat \<Rightarrow> elan \<Rightarrow> outcome" where
  "clearRules_loop 0 s = Returned s"
| "clearRules_loop (Suc i) s =
     (case removeRule (Finite (int i)) s of
        Threw e s' \<Rightarrow> Threw e s'
      | Returned s' \<Rightarrow> clearRules_loop i s')"

definition clearRules :: "elan \<Rightarrow> outcome" where
  "clearRules s = clearRules_loop (length (cssRules s)) s"

subsection \<open>addCSS\<close>

definition is_lower :: "char \<Rightarrow> bool" where
  "is_lower c = (c \<in> set ''abcdefghijklmnopqrstuvwxyz'')"

definition is_upper :: "char \<Rightarrow> bool" where
  "is_upper c = (c \<in> set ''ABCDEFGHIJKLMNOPQRSTUVWXYZ'')"

text \<open>
  \<^verbatim>\<open>prop.replace(/([a-z])([A-Z])/g, "$1-$2")\<close>: the string is scanned from the left;
  at a match the two letters are copied with a hyphen between them and the scan goes on
  after the match, elsewhere one character is copied.
\<close>

fun replace_camel :: "string \<Rightarrow> string" where
  "replace_camel (a # b # cs) =
     (if is_lower a \<and> is_upper b then a # CHR ''-'' # b # replace_camel cs
      else a # replace_camel (b # cs))"
| "replace_camel cs = cs"

text \<open>\<^verbatim>\<open>toLowerCase()\<close> on an ASCII string.\<close>

definition lower_char :: "char \<Rightarrow> char" where
  "lower_char c =
     (case map_of (zip ''ABCDEFGHIJKLMNOPQRSTUVWXYZ'' ''abcdefghijklmnopqrstuvwxyz'') c of
        Some l \<Rightarrow> l
      | None \<Rightarrow> c)"

definition toLowerCase :: "string \<Rightarrow> string" where
  "toLowerCase cs = map lower_char cs"

text \<open>
  \<^verbatim>\<open>for (i = 0, l = proplist.length; i < l; i++) rules += prop + ":" + proplist[i] + ";"\<close>
\<close>

fun array_loop :: "string \<Rightarrow> jsval list \<Rightarrow> string \<Rightarrow> string" where
  "array_loop prop [] rules = rules"
| "array_loop prop (v # vs) rules =
     array_loop prop vs (rules @ prop @ '':'' @ js_to_string v @ '';'')"

text \<open>
  What one property does to \<^verbatim>\<open>rules\<close>, its name already converted: a string value
  (\<^verbatim>\<open>typeof proplist === "string"\<close>) appends one segment, an array
  (\<^verbatim>\<open>proplist instanceof Array\<close>) one segment per entry, any other value nothing.
\<close>

fun add_property :: "string \<Rightarrow> jsval \<Rightarrow> string \<Rightarrow> string" where
  "add_property prop (Str v) rules = rules @ prop @ '':'' @ v @ '';''"
| "add_property prop (Arr vs) rules = array_loop prop vs rules"
| "add_property prop v rules = rules"

text \<open>\<^verbatim>\<open>for (var prop in block)\<close>, over the properties of the block.\<close>

fun block_loop :: "(string \<times> jsval) list \<Rightarrow> string \<Rightarrow> string" where
  "block_loop [] rules = rules"
| "block_loop ((prop, proplist) # ps) rules =
     block_loop ps (add_property (toLowerCase (replace_camel prop)) proplist rules)"

text \<open>
  \<^verbatim>\<open>for (var selector in css)\<close>, over the properties of \<^verbatim>\<open>css\<close>. The variable
  \<^verbatim>\<open>rules\<close> is declared before the loop and is passed on from one selector to the next.
\<close>

fun addCSS_loop :: "(string \<times> jsval) list \<Rightarrow> jsval \<Rightarrow> string \<Rightarrow> elan \<Rightarrow> outcome" where
  "addCSS_loop [] index rules s = Returned s"
| "addCSS_loop ((selector, block) # rest) index rules s =
     (if typeof block \<noteq> ''object''
      then Threw (Error (''Invalid style block '' @ selector @ '':'' @ js_to_string block)) s
      else (case addRule selector (block_loop (for_in block) rules) index s of
              Threw e s' \<Rightarrow> Threw e s'
            | Returned s' \<Rightarrow>
                addCSS_loop rest index (block_loop (for_in block) rules) s'))"

definition addCSS :: "jsval \<Rightarrow> jsval \<Rightarrow> elan \<Rightarrow> outcome" where
  "addCSS css index s =
     (if typeof css \<noteq> ''object''
      then Threw (Error (''Invalid CSS object '' @ js_to_string css)) s
      else addCSS_loop (for_in css) index [] s)"

text \<open>
  The value of \<^verbatim>\<open>rules\<close> once the loop has gone through the given selectors, when
  it started from \<open>rules\<close>.
\<close>

fun rules_after :: "(string \<times> jsval) list \<Rightarrow> string \<Rightarrow> string" where
  "rules_after [] rules = rules"
| "rules_after ((selector, block) # rest) rules =
     rules_after rest (block_loop (for_in block) rules)"

subsection \<open>removeCSS\<close>

text \<open>
  \<^verbatim>\<open>for (var i = 0, l = rules.length; i < l; i++)\<close>: \<open>removeCSS_loop selector i n\<close>
  is the loop at counter \<open>i\<close> with \<open>n = l - i\<close> iterations to go. The bound \<open>l\<close> is
  read once, before the loop; \<^verbatim>\<open>rules\<close> is the live list, so \<^verbatim>\<open>rules[i]\<close> is read
  from the current state, and \<^verbatim>\<open>rules[i].selectorText\<close> raises \<^verbatim>\<open>TypeError\<close> when
  \<^verbatim>\<open>rules[i]\<close> is \<^verbatim>\<open>undefined\<close>. (\<^verbatim>\<open>rules\<close> is \<^verbatim>\<open>sheet.rules || sheet.cssRules\<close>,
  two names of the same live list.)
\<close>

fun removeCSS_loop :: "string \<Rightarrow> nat \<Rightarrow> nat \<Rightarrow> elan \<Rightarrow> outcome" where
  "removeCSS_loop selector i 0 s = Returned s"
| "removeCSS_loop selector i (Suc n) s =
     (case rule_at (cssRules s) (Finite (int i)) of
        None \<Rightarrow> Threw TypeError s
      | Some r \<Rightarrow>
          if selectorText r = selector
          then (case removeRule (Finite (int i)) s of
                  Threw e s' \<Rightarrow> Threw e s'
                | Returned s' \<Rightarrow> removeCSS_loop selector (Suc i) n s')
          else removeCSS_loop selector (Suc i) n s)"

definition removeCSS :: "string \<Rightarrow> jsval \<Rightarrow> elan \<Rightarrow> outcome" where
  "removeCSS selector index s =
     (case explicit_index index of
        Some n \<Rightarrow>
          (case rule_at (cssRules s) n of
             None \<Rightarrow> Threw TypeError s
           | Some r \<Rightarrow> if selectorText r = selector then removeRule n s else Returned s)
      | None \<Rightarrow> removeCSS_loop selector 0 (length (cssRules s)) s)"

section \<open>The specification's wording\<close>

text \<open>
  The specification's description of \<^verbatim>\<open>clearRules\<close>: \<^verbatim>\<open>removeRule\<close> is called at each
  index of a list of indices in turn, up to the first call that throws.
\<close>

fun removeRule_each :: "nat list \<Rightarrow> elan \<Rightarrow> outcome" where
  "removeRule_each [] s = Returned s"
| "removeRule_each (i # is) s =
     (case removeRule (Finite (int i)) s of
        Threw e s' \<Rightarrow> Threw e s'
      | Returned s' \<Rightarrow> removeRule_each is s')"

text \<open>
  The specification's conversion of a property name: a hyphen is inserted between each
  lowercase letter and an uppercase letter that follows it, then the whole name is put in
  lowercase.
\<close>

fun spec_hyphenate :: "string \<Rightarrow> string" where
  "spec_hyphenate (a # b # cs) =
     (if is_lower a \<and> is_upper b then a # CHR ''-'' # spec_hyphenate (b # cs)
      else a # spec_hyphenate (b # cs))"
| "spec_hyphenate cs = cs"

definition spec_kebab :: "string \<Rightarrow> string" where
  "spec_kebab name = toLowerCase (spec_hyphenate name)"

section \<open>removeRule and clearRules\<close>

lemma removeRule_in_range:
  assumes "has_removeRule s \<or> has_deleteRule s" and "i < length (cssRules s)"
  shows "removeRule (Finite (int i)) s =
           Returned (s\<lparr>cssRules := take i (cssRules s) @ drop (Suc i) (cssRules s)\<rparr>)"
  using assms by (auto simp: removeRule_def sheet_removeRule_def sheet_deleteRule_def)

lemma clearRules_loop_all:
  "has_removeRule s \<or> has_deleteRule s \<Longrightarrow> length (cssRules s) = n \<Longrightarrow>
     clearRules_loop n s = Returned (s\<lparr>cssRules := []\<rparr>)"
proof (induction n arbitrary: s)
  case 0
  then show ?case by simp
next
  case (Suc n)
  let ?s' = "s\<lparr>cssRules := take n (cssRules s) @ drop (Suc n) (cssRules s)\<rparr>"
  have step: "removeRule (Finite (int n)) s = Returned ?s'"
    using Suc.prems by (simp add: removeRule_in_range)
  have "clearRules_loop n ?s' = Returned (?s'\<lparr>cssRules := []\<rparr>)"
    using Suc.prems by (intro Suc.IH) auto
  with step show ?case by simp
qed

lemma clearRules_loop_each:
  "clearRules_loop n s = removeRule_each (rev [0..<n]) s"
  by (induction n arbitrary: s) (auto split: outcome.splits)

text \<open>
  C9. On a sheet that has a removal primitive, \<^verbatim>\<open>clearRules()\<close> returns with the rule
  list empty (length 0), whatever the rule list was, and calling it again changes
  nothing. The calls of \<^verbatim>\<open>removeRule\<close> it makes are those at the indices from the
  highest one down to zero, in that order. On an empty rule list it removes nothing and
  raises no error.
\<close>

theorem clearRules_removes_all:
  "(has_removeRule s \<or> has_deleteRule s \<longrightarrow>
      clearRules s = Returned (s\<lparr>cssRules := []\<rparr>)
      \<and> length (cssRules (s\<lparr>cssRules := []\<rparr>)) = 0
      \<and> clearRules (s\<lparr>cssRules := []\<rparr>) = clearRules s)
   \<and> clearRules s = removeRule_each (rev [0..<length (cssRules s)]) s
   \<and> (cssRules s = [] \<longrightarrow> clearRules s = Returned s)"
proof (intro conjI impI)
  assume h: "has_removeRule s \<or> has_deleteRule s"
  show a: "clearRules s = Returned (s\<lparr>cssRules := []\<rparr>)"
    using h by (simp add: clearRules_def clearRules_loop_all)
  show "length (cssRules (s\<lparr>cssRules := []\<rparr>)) = 0" by simp
  show "clearRules (s\<lparr>cssRules := []\<rparr>) = clearRules s"
    unfolding a by (simp add: clearRules_def)
next
  show "clearRules s = removeRule_each (rev [0..<length (cssRules s)]) s"
    by (simp add: clearRules_def clearRules_loop_each)
next
  assume "cssRules s = []"
  then show "clearRules s = Returned s" by (simp add: clearRules_def)
qed

theorem clearRules_removes_all_witness:
  "(has_removeRule (sheet_with [mk_rule ''.x'' ''color:red;'', mk_rule ''.y'' [], mk_rule ''.x'' []])
    \<or> has_deleteRule (sheet_with [mk_rule ''.x'' ''color:red;'', mk_rule ''.y'' [], mk_rule ''.x'' []]))
   \<and> clearRules (sheet_with [mk_rule ''.x'' ''color:red;'', mk_rule ''.y'' [], mk_rule ''.x'' []])
       = Returned (sheet_with [])
   \<and> clearRules (sheet_with [mk_rule ''.x'' ''color:red;'', mk_rule ''.y'' [], mk_rule ''.x'' []])
       = removeRule_each [2, 1, 0]
           (sheet_with [mk_rule ''.x'' ''color:red;'', mk_rule ''.y'' [], mk_rule ''.x'' []])
   \<and> cssRules (sheet_with []) = []
   \<and> clearRules (sheet_with []) = Returned (sheet_with [])"
  using clearRules_removes_all
          [of "sheet_with [mk_rule ''.x'' ''color:red;'', mk_rule ''.y'' [], mk_rule ''.x'' []]"]
        clearRules_removes_all [of "sheet_with []"]
  by (simp add: sheet_with_def upt_rec removeRule_def sheet_removeRule_def sheet_deleteRule_def)

text \<open>
  The host reads 4294967296 as 0 and -4294967295 as 1: for the primitive these are
  positions of a list of two rules, and \<^verbatim>\<open>removeRule\<close> removes the rule there.
\<close>

lemma removeRule_index_reduced:
  "removeRule (Finite 4294967296) (sheet_with [mk_rule ''.a'' [], mk_rule ''.b'' []])
     = Returned (sheet_with [mk_rule ''.b'' []])
   \<and> removeRule (Finite (- 4294967295)) (sheet_with [mk_rule ''.a'' [], mk_rule ''.b'' []])
     = Returned (sheet_with [mk_rule ''.a'' []])
   \<and> removeRule PosInf (sheet_with [mk_rule ''.a'' [], mk_rule ''.b'' []])
     = Returned (sheet_with [mk_rule ''.b'' []])"
  by (simp add: removeRule_def sheet_removeRule_def sheet_deleteRule_def sheet_with_def)



section \<open>removeCSS\<close>

text \<open>
  C5. \<^verbatim>\<open>removeCSS(selector, index)\<close> with an integer index that is a position of the rule
  list: when the selector text of the rule at that position equals \<open>selector\<close>, that rule
  and no other is removed (the list is one shorter); when it differs, the call returns
  with the handle unchanged and raises no error.
\<close>

theorem removeCSS_at_index:
  assumes "has_removeRule s \<or> has_deleteRule s"
    and "0 \<le> i" and "i < int (length (cssRules s))"
  shows "removeCSS selector (Num (Finite i)) s =
           (if selectorText (cssRules s ! nat i) = selector
            then Returned (s\<lparr>cssRules := take (nat i) (cssRules s) @ drop (Suc (nat i)) (cssRules s)\<rparr>)
            else Returned s)
         \<and> length (take (nat i) (cssRules s) @ drop (Suc (nat i)) (cssRules s))
             = length (cssRules s) - 1"
proof -
  have "nat i < length (cssRules s)" using assms by simp
  from removeRule_in_range [OF assms(1) this] assms(2,3)
  show ?thesis by (auto simp: removeCSS_def)
qed

theorem removeCSS_at_index_witness:
  "(has_removeRule (sheet_with [mk_rule ''.x'' ''a:b;'', mk_rule ''.y'' ''c:d;'', mk_rule ''.x'' ''e:f;''])
     \<or> has_deleteRule (sheet_with [mk_rule ''.x'' ''a:b;'', mk_rule ''.y'' ''c:d;'', mk_rule ''.x'' ''e:f;'']))
   \<and> (0::int) \<le> 2
   \<and> 2 < int (length (cssRules (sheet_with [mk_rule ''.x'' ''a:b;'', mk_rule ''.y'' ''c:d;'', mk_rule ''.x'' ''e:f;''])))
   \<and> removeCSS ''.x'' (Num (Finite 2))
        (sheet_with [mk_rule ''.x'' ''a:b;'', mk_rule ''.y'' ''c:d;'', mk_rule ''.x'' ''e:f;''])
       = Returned (sheet_with [mk_rule ''.x'' ''a:b;'', mk_rule ''.y'' ''c:d;''])
   \<and> removeCSS ''.y'' (Num (Finite 2))
        (sheet_with [mk_rule ''.x'' ''a:b;'', mk_rule ''.y'' ''c:d;'', mk_rule ''.x'' ''e:f;''])
       = Returned (sheet_with [mk_rule ''.x'' ''a:b;'', mk_rule ''.y'' ''c:d;'', mk_rule ''.x'' ''e:f;''])"
  using removeCSS_at_index
          [of "sheet_with [mk_rule ''.x'' ''a:b;'', mk_rule ''.y'' ''c:d;'', mk_rule ''.x'' ''e:f;'']"
              2 "''.x''"]
        removeCSS_at_index
          [of "sheet_with [mk_rule ''.x'' ''a:b;'', mk_rule ''.y'' ''c:d;'', mk_rule ''.x'' ''e:f;'']"
              2 "''.y''"]
  by (simp add: sheet_with_def mk_rule_def)

text \<open>
  C2. \<^verbatim>\<open>removeCSS(selector)\<close> without an index does not remove every rule with that
  selector. On the rules \<^verbatim>\<open>.x .x .y .x\<close> the scan removes the first rule, steps over the
  second (which has moved to position 0), removes the last, and then reads position 3 of
  a list of two rules: it throws \<^verbatim>\<open>TypeError\<close> and leaves \<^verbatim>\<open>.x .y\<close>. On the rules
  \<^verbatim>\<open>.x .y .x\<close> both matching rules are removed, and the call throws \<^verbatim>\<open>TypeError\<close> at
  position 2 all the same.
\<close>

theorem removeCSS_scan_misses_rules:
  "removeCSS ''.x'' Undefined
     (sheet_with [mk_rule ''.x'' [], mk_rule ''.x'' [], mk_rule ''.y'' [], mk_rule ''.x'' []])
     = Threw TypeError (sheet_with [mk_rule ''.x'' [], mk_rule ''.y'' []])
   \<and> removeCSS ''.x'' Undefined
       (sheet_with [mk_rule ''.x'' [], mk_rule ''.y'' [], mk_rule ''.x'' []])
     = Threw TypeError (sheet_with [mk_rule ''.y'' []])"
  by (simp add: removeCSS_def sheet_with_def mk_rule_def removeRule_def sheet_removeRule_def
        sheet_deleteRule_def)

section \<open>addRule\<close>

lemma addRule_inserts:
  assumes "has_insertRule s \<or> has_addRule s"
  shows "addRule selector rules index s =
           (case sheet_insertRule (mk_rule selector rules)
                   (case explicit_index index of
                      Some n \<Rightarrow> n
                    | None \<Rightarrow> Finite (int (length (cssRules s))))
                   (cssRules s) of
              Inl e \<Rightarrow> Threw e s
            | Inr rs \<Rightarrow> Returned (s\<lparr>cssRules := rs\<rparr>))"
  using assms by (auto simp: addRule_def Let_def sheet_addRule_def)

text \<open>
  An index of \<^verbatim>\<open>Infinity\<close> is a number and is not \<^verbatim>\<open>NaN\<close>: \<^verbatim>\<open>addRule\<close> hands it to the
  sheet, and the rule is not appended at the end of the list.
\<close>

theorem addRule_infinite_index_counterexample:
  "addRule ''.b'' ''color:red;'' (Num PosInf) (sheet_with [mk_rule ''.a'' []])
     = Returned (sheet_with [mk_rule ''.b'' ''color:red;'', mk_rule ''.a'' []])
   \<and> addRule ''.b'' ''color:red;'' (Num PosInf) (sheet_with [mk_rule ''.a'' []])
     \<noteq> Returned (sheet_with [mk_rule ''.a'' [], mk_rule ''.b'' ''color:red;''])"
  by (simp add: addRule_def sheet_with_def mk_rule_def sheet_insertRule_def)

text \<open>
  C3, as the code has it. On a sheet that has an insertion primitive: when the index is
  omitted, is not a number, or is \<^verbatim>\<open>NaN\<close>, \<^verbatim>\<open>addRule\<close> appends the rule at the end of
  the rule list (at the position that was the length of the list); when it is an integer
  from 0 to the length of the list, the rule is inserted at that position; and every
  number other than \<^verbatim>\<open>NaN\<close>, the infinities included, is handed to the insertion
  primitive as it is.
\<close>

theorem addRule_position:
  assumes "has_insertRule s \<or> has_addRule s"
  shows "(typeof index \<noteq> ''number'' \<or> index = Num NaN \<longrightarrow>
            addRule selector rules index s
              = Returned (s\<lparr>cssRules := cssRules s @ [mk_rule selector rules]\<rparr>))
       \<and> (index = Num (Finite i) \<and> 0 \<le> i \<and> i \<le> int (length (cssRules s)) \<longrightarrow>
            addRule selector rules index s
              = Returned (s\<lparr>cssRules := take (nat i) (cssRules s) @ mk_rule selector rules
                                          # drop (nat i) (cssRules s)\<rparr>))
       \<and> (index = Num n \<and> n \<noteq> NaN \<longrightarrow>
            addRule selector rules index s
              = (case sheet_insertRule (mk_rule selector rules) n (cssRules s) of
                   Inl e \<Rightarrow> Threw e s
                 | Inr rs \<Rightarrow> Returned (s\<lparr>cssRules := rs\<rparr>)))"
proof (intro conjI impI)
  assume "typeof index \<noteq> ''number'' \<or> index = Num NaN"
  then have "explicit_index index = None" by (cases index) auto
  then show "addRule selector rules index s
              = Returned (s\<lparr>cssRules := cssRules s @ [mk_rule selector rules]\<rparr>)"
    using assms by (simp add: addRule_inserts sheet_insertRule_def)
next
  assume "index = Num (Finite i) \<and> 0 \<le> i \<and> i \<le> int (length (cssRules s))"
  then show "addRule selector rules index s
              = Returned (s\<lparr>cssRules := take (nat i) (cssRules s) @ mk_rule selector rules
                                          # drop (nat i) (cssRules s)\<rparr>)"
    using assms by (simp add: addRule_inserts sheet_insertRule_def)
next
  assume "index = Num n \<and> n \<noteq> NaN"
  then show "addRule selector rules index s
              = (case sheet_insertRule (mk_rule selector rules) n (cssRules s) of
                   Inl e \<Rightarrow> Threw e s
                 | Inr rs \<Rightarrow> Returned (s\<lparr>cssRules := rs\<rparr>))"
    using assms by (simp add: addRule_inserts)
qed

theorem addRule_position_witness:
  "(has_insertRule (sheet_with [mk_rule ''.a'' [], mk_rule ''.b'' []])
     \<or> has_addRule (sheet_with [mk_rule ''.a'' [], mk_rule ''.b'' []]))
   \<and> typeof Undefined \<noteq> ''number''
   \<and> addRule ''.c'' ''top:0;'' Undefined (sheet_with [mk_rule ''.a'' [], mk_rule ''.b'' []])
       = Returned (sheet_with [mk_rule ''.a'' [], mk_rule ''.b'' [], mk_rule ''.c'' ''top:0;''])
   \<and> addRule ''.c'' ''top:0;'' (Num NaN) (sheet_with [mk_rule ''.a'' [], mk_rule ''.b'' []])
       = Returned (sheet_with [mk_rule ''.a'' [], mk_rule ''.b'' [], mk_rule ''.c'' ''top:0;''])
   \<and> (0::int) \<le> 1 \<and> 1 \<le> int (length (cssRules (sheet_with [mk_rule ''.a'' [], mk_rule ''.b'' []])))
   \<and> addRule ''.c'' ''top:0;'' (Num (Finite 1)) (sheet_with [mk_rule ''.a'' [], mk_rule ''.b'' []])
       = Returned (sheet_with [mk_rule ''.a'' [], mk_rule ''.c'' ''top:0;'', mk_rule ''.b'' []])
   \<and> NegInf \<noteq> NaN
   \<and> addRule ''.c'' ''top:0;'' (Num NegInf) (sheet_with [mk_rule ''.a'' [], mk_rule ''.b'' []])
       = Returned (sheet_with [mk_rule ''.c'' ''top:0;'', mk_rule ''.a'' [], mk_rule ''.b'' []])"
  using addRule_position [of "sheet_with [mk_rule ''.a'' [], mk_rule ''.b'' []]" Undefined
                              "''.c''" "''top:0;''" 0 NaN]
        addRule_position [of "sheet_with [mk_rule ''.a'' [], mk_rule ''.b'' []]" "Num NaN"
                              "''.c''" "''top:0;''" 0 NaN]
        addRule_position [of "sheet_with [mk_rule ''.a'' [], mk_rule ''.b'' []]" "Num (Finite 1)"
                              "''.c''" "''top:0;''" 1 "Finite 1"]
        addRule_position [of "sheet_with [mk_rule ''.a'' [], mk_rule ''.b'' []]" "Num NegInf"
                              "''.c''" "''top:0;''" 0 NegInf]
  by (simp add: sheet_with_def sheet_insertRule_def)

section \<open>addCSS\<close>

subsection \<open>Property names\<close>

lemma upper_not_lower: "is_upper c \<Longrightarrow> \<not> is_lower c"
  by (auto simp: is_upper_def is_lower_def)

lemma replace_camel_upper: "\<not> is_lower b \<Longrightarrow> replace_camel (b # cs) = b # replace_camel cs"
  by (cases cs) auto

lemma replace_camel_spec: "replace_camel cs = spec_hyphenate cs"
proof (induction cs rule: spec_hyphenate.induct)
  case (1 a b cs)
  show ?case
  proof (cases "is_lower a \<and> is_upper b")
    case True
    then have "\<not> is_lower b" by (simp add: upper_not_lower)
    then have "replace_camel (b # cs) = b # replace_camel cs" by (rule replace_camel_upper)
    with True 1 show ?thesis by simp
  next
    case False
    with 1 show ?thesis by auto
  qed
qed simp_all

subsection \<open>The declaration text\<close>

lemma array_loop_acc: "array_loop prop vs rules = rules @ array_loop prop vs []"
proof (induction vs arbitrary: rules)
  case Nil
  show ?case by simp
next
  case (Cons v vs)
  have "array_loop prop (v # vs) rules
          = array_loop prop vs (rules @ prop @ '':'' @ js_to_string v @ '';'')" by simp
  also have "\<dots> = (rules @ prop @ '':'' @ js_to_string v @ '';'') @ array_loop prop vs []"
    by (rule Cons.IH)
  also have "\<dots> = rules @ array_loop prop (v # vs) []"
    using Cons.IH [of "prop @ '':'' @ js_to_string v @ '';''"] by simp
  finally show ?case .
qed

lemma add_property_acc: "add_property prop v rules = rules @ add_property prop v []"
  by (cases v) (simp_all add: array_loop_acc [of _ _ rules])

lemma block_loop_acc: "block_loop ps rules = rules @ block_loop ps []"
proof (induction ps arbitrary: rules)
  case Nil
  show ?case by simp
next
  case (Cons p ps)
  obtain k v where p: "p = (k, v)" by (cases p)
  let ?name = "toLowerCase (replace_camel k)"
  have "block_loop (p # ps) rules = add_property ?name v rules @ block_loop ps []"
    using Cons.IH [of "add_property ?name v rules"] by (simp add: p)
  also have "\<dots> = rules @ add_property ?name v [] @ block_loop ps []"
    using add_property_acc [of ?name v rules] by simp
  also have "\<dots> = rules @ block_loop (p # ps) []"
    using Cons.IH [of "add_property ?name v []"] by (simp add: p)
  finally show ?case .
qed

lemma block_loop_append: "block_loop (ps @ qs) rules = block_loop qs (block_loop ps rules)"
  by (induction ps arbitrary: rules) auto

lemma block_loop_concat:
  "block_loop ps [] = concat (map (\<lambda>(prop, v). add_property (toLowerCase (replace_camel prop)) v []) ps)"
proof (induction ps)
  case Nil
  show ?case by simp
next
  case (Cons p ps)
  obtain k v where p: "p = (k, v)" by (cases p)
  show ?case
    using block_loop_acc [of ps "add_property (toLowerCase (replace_camel k)) v []"] Cons.IH
    by (simp add: p)
qed

lemma array_loop_strings:
  "array_loop name (map Str vs) [] = concat (map (\<lambda>v. name @ '':'' @ v @ '';'') vs)"
proof (induction vs)
  case Nil
  show ?case by simp
next
  case (Cons v vs)
  show ?case
    using array_loop_acc [of name "map Str vs" "name @ '':'' @ v @ '';''"] Cons.IH by simp
qed

lemma addCSS_single:
  "addCSS (Obj [(selector, Obj block)]) index s = addRule selector (block_loop block []) index s"
  by (simp add: addCSS_def split: outcome.splits)

lemma addCSS_loop_append:
  "addCSS_loop (before @ rest) index rules s =
     (case addCSS_loop before index rules s of
        Threw e s' \<Rightarrow> Threw e s'
      | Returned s' \<Rightarrow> addCSS_loop rest index (rules_after before rules) s')"
proof (induction before arbitrary: rules s)
  case Nil
  show ?case by simp
next
  case (Cons p before)
  obtain selector block where p: "p = (selector, block)" by (cases p)
  show ?case by (simp add: p Cons.IH split: outcome.splits)
qed

lemma add_property_other:
  "typeof v \<noteq> ''string'' \<Longrightarrow> \<not> instanceof_Array v \<Longrightarrow> add_property name v rules = rules"
  by (cases v) simp_all

lemma addCSS_loop_same_text:
  assumes "\<And>rules. block_loop b1 rules = block_loop b2 rules"
  shows "addCSS_loop (before @ (selector, Obj b1) # rest) index rules s
           = addCSS_loop (before @ (selector, Obj b2) # rest) index rules s"
  using assms by (simp add: addCSS_loop_append split: outcome.splits)

text \<open>
  C7. The name under which a property is written into the declaration text is the name
  the specification describes (a hyphen between each lowercase letter and a following
  uppercase letter, then all lowercase): the text a block adds to \<^verbatim>\<open>rules\<close> is, property
  by property, the segments of that property under the converted name, a string value
  giving the one segment \<^verbatim>\<open>name:value;\<close>. For
  \<^verbatim>\<open>addCSS({".b": {backgroundSize: "cover"}})\<close> the rule added has the declaration
  text \<^verbatim>\<open>background-size:cover;\<close>, in which \<^verbatim>\<open>backgroundSize\<close> does not occur.
\<close>

theorem addCSS_property_names:
  "toLowerCase (replace_camel name) = spec_kebab name
   \<and> block_loop block rules
       = rules @ concat (map (\<lambda>(name, v). add_property (spec_kebab name) v []) block)
   \<and> addCSS (Obj [(selector, Obj block)]) index s
       = addRule selector
           (concat (map (\<lambda>(name, v). add_property (spec_kebab name) v []) block)) index s
   \<and> add_property (spec_kebab name) (Str x) [] = spec_kebab name @ '':'' @ x @ '';''
   \<and> addCSS (Obj [(''.b'', Obj [(''backgroundSize'', Str ''cover'')])]) Undefined (sheet_with [])
       = Returned (sheet_with [mk_rule ''.b'' ''background-size:cover;''])
   \<and> \<not> sublist ''backgroundSize'' ''background-size:cover;''"
proof (intro conjI)
  show "toLowerCase (replace_camel name) = spec_kebab name"
    by (simp add: spec_kebab_def replace_camel_spec)
  have decls: "block_loop block []
                = concat (map (\<lambda>(name, v). add_property (spec_kebab name) v []) block)"
    by (simp add: block_loop_concat spec_kebab_def replace_camel_spec)
  show "block_loop block rules
          = rules @ concat (map (\<lambda>(name, v). add_property (spec_kebab name) v []) block)"
    using block_loop_acc [of block rules] decls by simp
  show "addCSS (Obj [(selector, Obj block)]) index s
          = addRule selector
              (concat (map (\<lambda>(name, v). add_property (spec_kebab name) v []) block)) index s"
    using decls by (simp add: addCSS_single)
  show "add_property (spec_kebab name) (Str x) [] = spec_kebab name @ '':'' @ x @ '';''"
    by simp
  show "addCSS (Obj [(''.b'', Obj [(''backgroundSize'', Str ''cover'')])]) Undefined (sheet_with [])
          = Returned (sheet_with [mk_rule ''.b'' ''background-size:cover;''])"
    by (simp add: addCSS_def addRule_def sheet_insertRule_def sheet_with_def mk_rule_def
          toLowerCase_def lower_char_def is_lower_def is_upper_def)
  show "\<not> sublist ''backgroundSize'' ''background-size:cover;''"
    by (simp add: sublist_Cons_right)
qed

text \<open>
  C8. A property whose value is an array of strings adds one segment \<^verbatim>\<open>name:value;\<close>
  per entry, in the order of the array, all under the name the specification's
  conversion gives the property, between the text of the properties before it and the
  text of those after it. All of it is in the text of the one \<^verbatim>\<open>addRule\<close> call made for
  the selector of the block, after what the selectors before it have left in
  \<^verbatim>\<open>rules\<close>; with one selector it is the whole declaration text of the one rule added.
  For \<^verbatim>\<open>addCSS({".c": {display: ["-webkit-box", "flex"]}})\<close> the rule added has the text
  \<^verbatim>\<open>display:-webkit-box;display:flex;\<close>, and for the block
  \<^verbatim>\<open>{color: "red", boxSizing: ["border-box", "content-box"], top: "0"}\<close> the text
  \<^verbatim>\<open>color:red;box-sizing:border-box;box-sizing:content-box;top:0;\<close>.
\<close>

theorem addCSS_array_values:
  "block_loop (ps @ (name, Arr (map Str vs)) # qs) rules
     = block_loop ps rules
       @ concat (map (\<lambda>v. spec_kebab name @ '':'' @ v @ '';'') vs)
       @ block_loop qs []
   \<and> addCSS (Obj (before @ (selector, Obj (ps @ (name, Arr (map Str vs)) # qs)) # rest)) index s
       = (case addCSS (Obj before) index s of
            Threw e s' \<Rightarrow> Threw e s'
          | Returned s' \<Rightarrow>
              (case addRule selector
                      (rules_after before []
                       @ block_loop ps []
                       @ concat (map (\<lambda>v. spec_kebab name @ '':'' @ v @ '';'') vs)
                       @ block_loop qs []) index s' of
                 Threw e s'' \<Rightarrow> Threw e s''
               | Returned s'' \<Rightarrow>
                   addCSS_loop rest index
                     (rules_after before []
                      @ block_loop ps []
                      @ concat (map (\<lambda>v. spec_kebab name @ '':'' @ v @ '';'') vs)
                      @ block_loop qs []) s''))
   \<and> addCSS (Obj [(selector, Obj (ps @ (name, Arr (map Str vs)) # qs))]) index s
       = addRule selector
           (block_loop ps []
            @ concat (map (\<lambda>v. spec_kebab name @ '':'' @ v @ '';'') vs)
            @ block_loop qs []) index s
   \<and> addCSS (Obj [(''.c'', Obj [(''display'', Arr [Str ''-webkit-box'', Str ''flex''])])])
         Undefined (sheet_with [])
       = Returned (sheet_with [mk_rule ''.c'' ''display:-webkit-box;display:flex;''])
   \<and> addCSS (Obj [(''.d'', Obj [(''color'', Str ''red''),
                                  (''boxSizing'', Arr [Str ''border-box'', Str ''content-box'']),
                                  (''top'', Str ''0'')])])
         Undefined (sheet_with [])
       = Returned (sheet_with
           [mk_rule ''.d'' ''color:red;box-sizing:border-box;box-sizing:content-box;top:0;''])"
proof (intro conjI)
  let ?segs = "concat (map (\<lambda>v. spec_kebab name @ '':'' @ v @ '';'') vs)"
  have one: "add_property (toLowerCase (replace_camel name)) (Arr (map Str vs)) acc = acc @ ?segs"
    for acc
    using array_loop_acc [of "toLowerCase (replace_camel name)" "map Str vs" acc]
    by (simp add: array_loop_strings spec_kebab_def replace_camel_spec)
  show gen: "block_loop (ps @ (name, Arr (map Str vs)) # qs) rules
               = block_loop ps rules @ ?segs @ block_loop qs []" for rules
    using block_loop_acc [of qs "block_loop ps rules @ ?segs"]
    by (simp add: block_loop_append one del: add_property.simps)
  have acc: "block_loop (ps @ (name, Arr (map Str vs)) # qs) rules
               = rules @ block_loop ps [] @ ?segs @ block_loop qs []" for rules
    using gen [of rules] block_loop_acc [of ps rules] by simp
  show "addCSS (Obj (before @ (selector, Obj (ps @ (name, Arr (map Str vs)) # qs)) # rest)) index s
          = (case addCSS (Obj before) index s of
               Threw e s' \<Rightarrow> Threw e s'
             | Returned s' \<Rightarrow>
                 (case addRule selector
                         (rules_after before [] @ block_loop ps [] @ ?segs @ block_loop qs [])
                         index s' of
                    Threw e s'' \<Rightarrow> Threw e s''
                  | Returned s'' \<Rightarrow>
                      addCSS_loop rest index
                        (rules_after before [] @ block_loop ps [] @ ?segs @ block_loop qs [])
                        s''))"
    by (simp add: addCSS_def addCSS_loop_append acc split: outcome.splits)
  show "addCSS (Obj [(selector, Obj (ps @ (name, Arr (map Str vs)) # qs))]) index s
          = addRule selector (block_loop ps [] @ ?segs @ block_loop qs []) index s"
    by (simp only: addCSS_single gen)
  show "addCSS (Obj [(''.c'', Obj [(''display'', Arr [Str ''-webkit-box'', Str ''flex''])])])
          Undefined (sheet_with [])
        = Returned (sheet_with [mk_rule ''.c'' ''display:-webkit-box;display:flex;''])"
    by (simp add: addCSS_def addRule_def sheet_insertRule_def sheet_with_def mk_rule_def
          toLowerCase_def lower_char_def is_lower_def is_upper_def)
  show "addCSS (Obj [(''.d'', Obj [(''color'', Str ''red''),
                                   (''boxSizing'', Arr [Str ''border-box'', Str ''content-box'']),
                                   (''top'', Str ''0'')])])
          Undefined (sheet_with [])
        = Returned (sheet_with
            [mk_rule ''.d'' ''color:red;box-sizing:border-box;box-sizing:content-box;top:0;''])"
    by (simp add: addCSS_def addRule_def sheet_insertRule_def sheet_with_def mk_rule_def
          toLowerCase_def lower_char_def is_lower_def is_upper_def)
qed

text \<open>
  C10. A property whose value is neither a string nor an array adds nothing to the
  declaration text and raises no error: \<^verbatim>\<open>addCSS\<close> does exactly what it does on the
  same argument without that property, and a block holding only such a property still
  has its rule added, with an empty declaration text.
\<close>

theorem addCSS_skips_other_values:
  assumes "typeof v \<noteq> ''string''" and "\<not> instanceof_Array v"
  shows "block_loop (ps @ (name, v) # qs) rules = block_loop (ps @ qs) rules
       \<and> addCSS (Obj (before @ (selector, Obj (ps @ (name, v) # qs)) # rest)) index s
           = addCSS (Obj (before @ (selector, Obj (ps @ qs)) # rest)) index s
       \<and> addCSS (Obj [(selector, Obj [(name, v)])]) index s = addRule selector [] index s"
proof (intro conjI)
  show skip: "block_loop (ps @ (name, v) # qs) rules = block_loop (ps @ qs) rules" for ps rules
    using assms by (simp add: block_loop_append add_property_other)
  show "addCSS (Obj (before @ (selector, Obj (ps @ (name, v) # qs)) # rest)) index s
          = addCSS (Obj (before @ (selector, Obj (ps @ qs)) # rest)) index s"
    unfolding addCSS_def using skip [of ps]
    by (simp add: addCSS_loop_same_text [of "ps @ (name, v) # qs" "ps @ qs"])
  show "addCSS (Obj [(selector, Obj [(name, v)])]) index s = addRule selector [] index s"
    using assms by (simp add: addCSS_single add_property_other)
qed

theorem addCSS_skips_other_values_witness:
  "typeof (Num (Finite 3)) \<noteq> ''string'' \<and> \<not> instanceof_Array (Num (Finite 3))
   \<and> addCSS (Obj [(''.a'', Obj [(''color'', Str ''red''), (''zIndex'', Num (Finite 3)),
                                  (''top'', Str ''0'')])]) Undefined (sheet_with [])
       = Returned (sheet_with [mk_rule ''.a'' ''color:red;top:0;''])
   \<and> typeof Null \<noteq> ''string'' \<and> \<not> instanceof_Array Null
   \<and> addCSS (Obj [(''.a'', Obj [(''color'', Null)])]) Undefined (sheet_with [])
       = Returned (sheet_with [mk_rule ''.a'' []])
   \<and> typeof (Obj [(''x'', Str ''y'')]) \<noteq> ''string'' \<and> \<not> instanceof_Array (Obj [(''x'', Str ''y'')])
   \<and> addCSS (Obj [(''.a'', Obj [(''font'', Obj [(''x'', Str ''y'')])])]) Undefined (sheet_with [])
       = Returned (sheet_with [mk_rule ''.a'' []])"
  using addCSS_skips_other_values
          [of "Num (Finite 3)" "[(''color'', Str ''red'')]" "''zIndex''" "[(''top'', Str ''0'')]"
              "[]" "[]" "''.a''" "[]" Undefined "sheet_with []"]
        addCSS_skips_other_values
          [of Null "[]" "''color''" "[]" "[]" "[]" "''.a''" "[]" Undefined "sheet_with []"]
        addCSS_skips_other_values
          [of "Obj [(''x'', Str ''y'')]" "[]" "''font''" "[]" "[]" "[]" "''.a''" "[]" Undefined
              "sheet_with []"]
  by (simp add: addCSS_def addRule_def sheet_insertRule_def sheet_with_def mk_rule_def
        toLowerCase_def lower_char_def is_lower_def is_upper_def)

text \<open>
  C1. The declaration text of a rule is not built from its selector's block alone: the
  variable \<^verbatim>\<open>rules\<close> is not reset between selectors, so the rule of the second selector
  starts with the declarations of the first. For
  \<^verbatim>\<open>addCSS({".a": {color: "red"}, ".b": {margin: "0"}})\<close> the rule added for \<^verbatim>\<open>.b\<close> has
  the text \<^verbatim>\<open>color:red;margin:0;\<close>; and so for any two selectors with their blocks.
\<close>

theorem addCSS_rules_accumulate:
  "addCSS (Obj [(''.a'', Obj [(''color'', Str ''red'')]), (''.b'', Obj [(''margin'', Str ''0'')])])
     Undefined (sheet_with [])
   = Returned (sheet_with [mk_rule ''.a'' ''color:red;'', mk_rule ''.b'' ''color:red;margin:0;''])
   \<and> addCSS (Obj [(a, Obj b1), (b, Obj b2)]) Undefined (sheet_with rs)
       = Returned (sheet_with (rs @ [mk_rule a (block_loop b1 []),
                                     mk_rule b (block_loop b1 [] @ block_loop b2 [])]))"
proof (intro conjI)
  show "addCSS (Obj [(''.a'', Obj [(''color'', Str ''red'')]), (''.b'', Obj [(''margin'', Str ''0'')])])
          Undefined (sheet_with [])
        = Returned (sheet_with [mk_rule ''.a'' ''color:red;'', mk_rule ''.b'' ''color:red;margin:0;''])"
    by (simp add: addCSS_def addRule_def sheet_insertRule_def sheet_with_def mk_rule_def
          toLowerCase_def lower_char_def is_lower_def is_upper_def)
  show "addCSS (Obj [(a, Obj b1), (b, Obj b2)]) Undefined (sheet_with rs)
          = Returned (sheet_with (rs @ [mk_rule a (block_loop b1 []),
                                        mk_rule b (block_loop b1 [] @ block_loop b2 [])]))"
    using block_loop_acc [of b2 "block_loop b1 []"]
    by (simp add: addCSS_def addRule_def sheet_insertRule_def sheet_with_def)
qed

text \<open>
  \<^verbatim>\<open>null\<close> is not a mapping, and its \<^verbatim>\<open>typeof\<close> is \<^verbatim>\<open>"object"\<close>: \<^verbatim>\<open>addCSS(null)\<close>
  returns without an error, and so does \<^verbatim>\<open>addCSS({".a": null})\<close>, which adds a rule
  for \<^verbatim>\<open>.a\<close>.
\<close>

theorem addCSS_null_counterexample:
  "addCSS Null Undefined (sheet_with []) = Returned (sheet_with [])
   \<and> addCSS (Obj [(''.a'', Null)]) Undefined (sheet_with [])
       = Returned (sheet_with [mk_rule ''.a'' []])"
  by (simp add: addCSS_def addRule_def sheet_insertRule_def sheet_with_def mk_rule_def)

lemma addRule_no_Error: "addRule selector rules index s \<noteq> Threw (Error msg) s'"
  by (auto simp: addRule_def Let_def sheet_addRule_def sheet_insertRule_def
        split: sum.splits if_splits)

lemma addCSS_loop_no_Error:
  "list_all (\<lambda>(k, b). typeof b = ''object'') bs \<Longrightarrow>
     addCSS_loop bs index rules s \<noteq> Threw (Error msg) s'"
proof (induction bs arbitrary: rules s)
  case Nil
  show ?case by simp
next
  case (Cons p bs)
  obtain k b where p: "p = (k, b)" by (cases p)
  from Cons.prems have b: "typeof b = ''object''" and rest: "list_all (\<lambda>(k, b). typeof b = ''object'') bs"
    by (simp_all add: p)
  show ?case
    using Cons.IH [OF rest] addRule_no_Error b
    by (auto simp: p split: outcome.splits)
qed

lemma addCSS_loop_null_block:
  "addCSS_loop (before @ (selector, Null) # rest) index rules s
     = addCSS_loop (before @ (selector, Obj []) # rest) index rules s"
  by (simp add: addCSS_loop_append split: outcome.splits)

text \<open>
  C4, as the code has it. When \<^verbatim>\<open>typeof css\<close> is not \<^verbatim>\<open>"object"\<close>, \<^verbatim>\<open>addCSS\<close> throws
  an error whose message is \<^verbatim>\<open>Invalid CSS object\<close> followed by \<^verbatim>\<open>css\<close>, and adds no rule.
  When \<^verbatim>\<open>typeof css\<close> is \<^verbatim>\<open>"object"\<close> and the value of one of the keys it enumerates has
  a \<^verbatim>\<open>typeof\<close> other than \<^verbatim>\<open>"object"\<close>, \<^verbatim>\<open>addCSS\<close> does what it does for the keys before
  that one and, unless that has thrown already, throws an error whose message is
  \<^verbatim>\<open>Invalid style block\<close> followed by the key, a colon and the value; the handle is
  then as the keys before it left it: their rules stay, and no rule is added for the
  offending key or for those after it. No such error is thrown when \<^verbatim>\<open>css\<close> and all the
  values it enumerates have the \<^verbatim>\<open>typeof\<close> \<^verbatim>\<open>"object"\<close>. \<^verbatim>\<open>null\<close> has it:
  \<^verbatim>\<open>addCSS(null)\<close> returns and adds nothing, and a \<^verbatim>\<open>null\<close> block is processed as an
  empty block. (The messages are those of the values whose numbers print in decimal.)
\<close>

theorem addCSS_invalid_input:
  "(typeof css \<noteq> ''object'' \<and> in_decimal_range css \<longrightarrow>
      addCSS css index s = Threw (Error (''Invalid CSS object '' @ js_to_string css)) s)
   \<and> (typeof css = ''object'' \<and> for_in css = before @ (selector, block) # rest
        \<and> typeof block \<noteq> ''object'' \<and> in_decimal_range block \<longrightarrow>
        addCSS css index s
          = (case addCSS (Obj before) index s of
               Threw e s' \<Rightarrow> Threw e s'
             | Returned s' \<Rightarrow>
                 Threw (Error (''Invalid style block '' @ selector @ '':'' @ js_to_string block)) s'))
   \<and> (typeof css = ''object'' \<and> list_all (\<lambda>(k, b). typeof b = ''object'') (for_in css) \<longrightarrow>
        (\<forall>msg s'. addCSS css index s \<noteq> Threw (Error msg) s'))
   \<and> addCSS Null index s = Returned s
   \<and> addCSS (Obj (before @ (selector, Null) # rest)) index s
       = addCSS (Obj (before @ (selector, Obj []) # rest)) index s"
proof (intro conjI impI allI)
  assume "typeof css \<noteq> ''object'' \<and> in_decimal_range css"
  then show "addCSS css index s = Threw (Error (''Invalid CSS object '' @ js_to_string css)) s"
    by (simp add: addCSS_def)
next
  assume "typeof css = ''object'' \<and> for_in css = before @ (selector, block) # rest
          \<and> typeof block \<noteq> ''object'' \<and> in_decimal_range block"
  then show "addCSS css index s
          = (case addCSS (Obj before) index s of
               Threw e s' \<Rightarrow> Threw e s'
             | Returned s' \<Rightarrow>
                 Threw (Error (''Invalid style block '' @ selector @ '':'' @ js_to_string block)) s')"
    by (simp add: addCSS_def addCSS_loop_append split: outcome.splits)
next
  fix msg s'
  assume "typeof css = ''object'' \<and> list_all (\<lambda>(k, b). typeof b = ''object'') (for_in css)"
  then show "addCSS css index s \<noteq> Threw (Error msg) s'"
    by (simp add: addCSS_def addCSS_loop_no_Error)
next
  show "addCSS Null index s = Returned s"
    by (simp add: addCSS_def)
next
  show "addCSS (Obj (before @ (selector, Null) # rest)) index s
          = addCSS (Obj (before @ (selector, Obj []) # rest)) index s"
    by (simp add: addCSS_def addCSS_loop_null_block)
qed

theorem addCSS_invalid_input_witness:
  "typeof (Str ''color'') \<noteq> ''object'' \<and> in_decimal_range (Str ''color'')
   \<and> addCSS (Str ''color'') Undefined (sheet_with [])
       = Threw (Error ''Invalid CSS object color'') (sheet_with [])
   \<and> typeof (Obj [(''.a'', Obj [(''top'', Str ''0'')]), (''.b'', Str ''red''),
                    (''.c'', Obj [(''left'', Str ''0'')])]) = ''object''
   \<and> typeof (Str ''red'') \<noteq> ''object'' \<and> in_decimal_range (Str ''red'')
   \<and> addCSS (Obj [(''.a'', Obj [(''top'', Str ''0'')])]) Undefined (sheet_with [])
       = Returned (sheet_with [mk_rule ''.a'' ''top:0;''])
   \<and> addCSS (Obj [(''.a'', Obj [(''top'', Str ''0'')]), (''.b'', Str ''red''),
                   (''.c'', Obj [(''left'', Str ''0'')])]) Undefined (sheet_with [])
       = Threw (Error ''Invalid style block .b:red'') (sheet_with [mk_rule ''.a'' ''top:0;''])
   \<and> typeof (Arr [Str ''x'']) = ''object'' \<and> for_in (Arr [Str ''x'']) = [(''0'', Str ''x'')]
   \<and> addCSS (Arr [Str ''x'']) Undefined (sheet_with [])
       = Threw (Error ''Invalid style block 0:x'') (sheet_with [])
   \<and> list_all (\<lambda>(k, b). typeof b = ''object'')
         (for_in (Obj [(''.a'', Null), (''.b'', Arr [Str ''x''])]))
   \<and> addCSS (Obj [(''.a'', Null), (''.b'', Arr [Str ''x''])]) Undefined (sheet_with [])
       \<noteq> Threw (Error ''Invalid style block .a:null'') (sheet_with [])
   \<and> addCSS (Obj [(''.a'', Null), (''.b'', Arr [Str ''x''])]) Undefined (sheet_with [])
       = Returned (sheet_with [mk_rule ''.a'' [], mk_rule ''.b'' ''0:x;''])"
  using addCSS_invalid_input
          [where css = "Str ''color''" and index = Undefined and s = "sheet_with []"]
        addCSS_invalid_input
          [where css = "Obj [(''.a'', Obj [(''top'', Str ''0'')]), (''.b'', Str ''red''),
                             (''.c'', Obj [(''left'', Str ''0'')])]"
             and block = "Str ''red''" and before = "[(''.a'', Obj [(''top'', Str ''0'')])]"
             and index = Undefined and s = "sheet_with []" and selector = "''.b''"
             and rest = "[(''.c'', Obj [(''left'', Str ''0'')])]"]
        addCSS_invalid_input
          [where css = "Arr [Str ''x'']" and block = "Str ''x''" and before = "[]"
             and index = Undefined and s = "sheet_with []" and selector = "''0''"
             and rest = "[]"]
        addCSS_invalid_input
          [where css = "Obj [(''.a'', Null), (''.b'', Arr [Str ''x''])]" and index = Undefined
             and s = "sheet_with []"]
  by (simp add: addCSS_def addRule_def sheet_insertRule_def sheet_with_def mk_rule_def
        toLowerCase_def lower_char_def is_lower_def is_upper_def nat_to_string.simps)

end
